theory Spec2Isabelle
  imports Main "HOL-Library.Sublist"
begin

section \<open>Python values and exceptions shared by the scripts\<close>

text \<open>
  A string is a list of characters with code points below 256, which covers what the
  scripts build themselves (host names, URLs, shell commands). A dictionary with string keys is an association list read with
  \<open>map_of\<close>, so the first binding of a key is the one a lookup sees.
\<close>

datatype pyval =
    PNone
  | PBool bool
  | PInt int
  | PStr string
  | PList "pyval list"
  | PDict "(string \<times> pyval) list"

datatype exn_class =
    KeyError | IndexError | TypeError | AttributeError | ValueError
  | RequestException | OSError | ClientError

text \<open>
  \<open>sys.exit()\<close> raises \<open>SystemExit(None)\<close>, \<open>sys.exit(obj)\<close> raises \<open>SystemExit(obj)\<close>.
  \<open>SystemExit\<close> derives from \<open>BaseException\<close>, not from \<open>Exception\<close>.
\<close>

datatype exit_arg = ExitNone | ExitObj string

datatype pyexn =
    Raised exn_class string
  | SystemExit exit_arg

definition is_Exception :: "pyexn \<Rightarrow> bool" where
  "is_Exception e = (case e of Raised c m \<Rightarrow> True | SystemExit a \<Rightarrow> False)"

definition is_RequestException :: "pyexn \<Rightarrow> bool" where
  "is_RequestException e =
     (case e of Raised c m \<Rightarrow> c = RequestException | SystemExit a \<Rightarrow> False)"

definition py_str :: "pyexn \<Rightarrow> string" where
  \<comment> \<open>\<open>str(e)\<close>: the message, except that a \<open>KeyError\<close> shows the repr of its key.\<close>
  "py_str e =
     (case e of
        Raised c m \<Rightarrow> (if c = KeyError then [CHR 0x27] @ m @ [CHR 0x27] else m)
      | SystemExit ExitNone \<Rightarrow> ''None''
      | SystemExit (ExitObj m) \<Rightarrow> m)"

definition py_getitem :: "pyval \<Rightarrow> string \<Rightarrow> pyexn + pyval" where
  \<comment> \<open>\<open>v[k]\<close> for a string key \<open>k\<close>.\<close>
  "py_getitem v k =
     (case v of
        PDict kvs \<Rightarrow> (case map_of kvs k of None \<Rightarrow> Inl (Raised KeyError k) | Some x \<Rightarrow> Inr x)
      | PStr s \<Rightarrow> Inl (Raised TypeError ''string indices must be integers'')
      | PList xs \<Rightarrow> Inl (Raised TypeError ''list indices must be integers or slices, not str'')
      | _ \<Rightarrow> Inl (Raised TypeError ''object is not subscriptable''))"

definition py_index :: "'a list \<Rightarrow> nat \<Rightarrow> pyexn + 'a" where
  \<comment> \<open>\<open>xs[i]\<close> for a literal index \<open>i \<ge> 0\<close>.\<close>
  "py_index xs i =
     (if i < length xs then Inr (xs ! i) else Inl (Raised IndexError ''list index out of range''))"

fun split_chr :: "char \<Rightarrow> string \<Rightarrow> string list" where
  \<comment> \<open>\<open>s.split(sep)\<close> for a separator of one character.\<close>
  "split_chr sep [] = [[]]"
| "split_chr sep (c # cs) =
     (if c = sep then [] # split_chr sep cs
      else (case split_chr sep cs of [] \<Rightarrow> [[c]] | p # ps \<Rightarrow> (c # p) # ps))"

definition py_split :: "pyval \<Rightarrow> char \<Rightarrow> pyexn + string list" where
  \<comment> \<open>the method \<open>split\<close> exists on strings only\<close>
  "py_split v sep =
     (case v of
        PStr s \<Rightarrow> Inr (split_chr sep s)
      | _ \<Rightarrow> Inl (Raised AttributeError ''object has no attribute split''))"

fun dict_set :: "(string \<times> pyval) list \<Rightarrow> string \<Rightarrow> pyval \<Rightarrow> (string \<times> pyval) list" where
  \<comment> \<open>\<open>d[k] = v\<close>: an existing key keeps its place, a new key goes last.\<close>
  "dict_set [] k v = [(k, v)]"
| "dict_set ((k', v') # kvs) k v =
     (if k' = k then (k, v) # kvs else (k', v') # dict_set kvs k v)"

subsection \<open>\<open>json.dumps\<close> with its default arguments\<close>

definition hex_digit :: "nat \<Rightarrow> char" where
  "hex_digit n = ''0123456789abcdef'' ! (n mod 16)"

function dec_digits :: "nat \<Rightarrow> string" where
  "dec_digits n =
     (if n < 10 then [hex_digit n] else dec_digits (n div 10) @ [hex_digit (n mod 10)])"
  by pat_completeness auto
termination
  by (relation "measure (\<lambda>n. n)") auto

definition py_int_str :: "int \<Rightarrow> string" where
  "py_int_str i = (if i < 0 then CHR ''-'' # dec_digits (nat (- i)) else dec_digits (nat i))"

definition json_escape_char :: "char \<Rightarrow> string" where
  \<comment> \<open>\<open>ensure_ascii=True\<close>: everything outside space .. tilde is escaped\<close>
  "json_escape_char c =
     (let n = (of_char c :: nat) in
      if n = 0x22 then [CHR 0x5C, CHR 0x22]
      else if n = 0x5C then [CHR 0x5C, CHR 0x5C]
      else if n = 0x0A then [CHR 0x5C, CHR ''n'']
      else if n = 0x0D then [CHR 0x5C, CHR ''r'']
      else if n = 0x09 then [CHR 0x5C, CHR ''t'']
      else if n = 0x08 then [CHR 0x5C, CHR ''b'']
      else if n = 0x0C then [CHR 0x5C, CHR ''f'']
      else if 0x20 \<le> n \<and> n \<le> 0x7E then [c]
      else [CHR 0x5C, CHR ''u'', CHR ''0'', CHR ''0'', hex_digit (n div 16), hex_digit n])"

definition json_string :: "string \<Rightarrow> string" where
  "json_string s = [CHR 0x22] @ concat (map json_escape_char s) @ [CHR 0x22]"

fun join :: "string \<Rightarrow> string list \<Rightarrow> string" where
  \<comment> \<open>\<open>sep.join(xs)\<close>\<close>
  "join sep [] = []"
| "join sep [x] = x"
| "join sep (x # y # ys) = x @ sep @ join sep (y # ys)"

fun json_dumps :: "pyval \<Rightarrow> string"
  and json_items :: "pyval list \<Rightarrow> string list"
  and json_members :: "(string \<times> pyval) list \<Rightarrow> string list" where
  "json_dumps PNone = ''null''"
| "json_dumps (PBool b) = (if b then ''true'' else ''false'')"
| "json_dumps (PInt i) = py_int_str i"
| "json_dumps (PStr s) = json_string s"
| "json_dumps (PList xs) = ''['' @ join '', '' (json_items xs) @ '']''"
| "json_dumps (PDict kvs) = ''{'' @ join '', '' (json_members kvs) @ ''}''"
| "json_items [] = []"
| "json_items (x # xs) = json_dumps x # json_items xs"
| "json_members [] = []"
| "json_members ((k, v) # kvs) = (json_string k @ '': '' @ json_dumps v) # json_members kvs"

section \<open>lambda302.py: the subdomain redirect\<close>

definition lambda_handler :: "pyval \<Rightarrow> pyval \<Rightarrow> pyexn + pyval" where
  "lambda_handler event context =
     (let bucket = ''my-bucket-name'' in
      case py_getitem event ''headers'' of Inl e \<Rightarrow> Inl e | Inr hs \<Rightarrow>
     (case py_getitem hs ''Host'' of Inl e \<Rightarrow> Inl e | Inr host \<Rightarrow>
     (case py_split host (CHR ''.'') of Inl e \<Rightarrow> Inl e | Inr parts \<Rightarrow>
     (case py_index parts 0 of Inl e \<Rightarrow> Inl e | Inr resource \<Rightarrow>
        let response =
              [(''statusCode'', PInt 302),
               (''headers'',
                  PDict [(''Location'',
                          PStr (''https://'' @ bucket @ ''.s3.amazonaws.com/'' @ resource))])];
            data = PDict [];
            response = dict_set response ''body'' (PStr (json_dumps data))
        in Inr (PDict response)))))"

section \<open>letsrenew.py: the certificate renewal wrapper\<close>

text \<open>
  As committed, the call \<open>run_cmd(f"""...\<close> at lines 212-215 lacks its closing
  parenthesis, so Python rejects the file before running any of it. The model below is the
  script with that one parenthesis written after the string literal, which is what the
  comments and the layout of lines 208-225 describe; every statement about a run of the
  script is a statement about this reading.
\<close>

subsection \<open>Configuration, lines 68-97\<close>

record ip_range =
  CidrIp :: string
  Description :: string

record ip_permission =
  FromPort :: int
  ToPort :: int
  IpProtocol :: string
  IpRanges :: "ip_range list"

text \<open>
  The configuration is a set of module globals that the header tells the operator to edit;
  the functions take them as a record, and \<open>default_config\<close> holds the committed values.
\<close>

record config =
  domain :: string
  threshold :: int
  pre_command :: string
  post_command :: string
  temp_rule :: "ip_permission list"

definition default_config :: config where
  "default_config =
     \<lparr> domain = ''mydomain.tld'',
       threshold = 5 * 24 * 60 * 60,
       pre_command =
         [CHR 0x0A] @ ''    echo '' @ [CHR 0x22] @ ''pre command'' @ [CHR 0x22]
         @ [CHR 0x0A] @ ''  '',
       post_command =
         [CHR 0x0A] @ ''    echo '' @ [CHR 0x22] @ ''post command'' @ [CHR 0x22]
         @ [CHR 0x0A] @ ''  '',
       temp_rule =
         [\<lparr> FromPort = 80, ToPort = 80, IpProtocol = ''tcp'',
            IpRanges = [\<lparr> CidrIp = ''0.0.0.0/0'', Description = ''temp-letsrenew-rule'' \<rparr>] \<rparr>] \<rparr>"

subsection \<open>The collaborators and the observable state\<close>

record security_group =
  GroupId :: string
  GroupName :: string
  IpPermissions :: "ip_permission list"

text \<open>
  Every call that leaves the process is recorded in a trace, in the order the script makes
  it, as is everything printed to standard output.
\<close>

datatype event =
    Print string
  | Connect string nat
  | Popen string
  | RequestsGet string
  | RequestsPost string
  | Boto3Client string
  | DescribeSecurityGroups nat string
  | AuthorizeIngress nat string "ip_permission list"
  | RevokeIngress nat string "ip_permission list"

record state =
  trace :: "event list"
  groups :: "security_group list"

record response =
  resp_text :: string
  resp_json :: "pyexn + pyval"

record cmd_result =
  stdout_text :: string
  exit_code :: int

text \<open>
  What the TLS peer, the operating system, the metadata service and the EC2 API answer is
  not in the repository: it is a parameter. Each answer may depend on everything that
  happened before the call (the state), and each call either returns or raises.
  \<open>tls_socket\<close> stands for lines 137-142 (\<open>create_default_context\<close>, \<open>wrap_socket\<close> on the
  host name, \<open>settimeout\<close>), which open no connection and answer \<open>None\<close> when they return.
  A boto3 handle is a number. \<open>peer_not_after\<close> stands for
  \<open>strptime(conn.getpeercert()['notAfter'])\<close>, in whole seconds since the epoch, and
  \<open>utcnow\<close> is in microseconds. \<open>authorize_ingress\<close> and \<open>revoke_ingress\<close> stand for
  \<open>ec2.SecurityGroup(id).authorize_ingress(...)\<close> and \<open>.revoke_ingress(...)\<close> and return
  the security groups as the call leaves them; a call that raises leaves them as they were.
  What a handle offers is the library's matter: a handle without the attribute
  \<open>SecurityGroup\<close> is a world whose \<open>authorize_ingress\<close> raises \<open>AttributeError\<close>.
\<close>

record world =
  tls_socket :: "state \<Rightarrow> string \<Rightarrow> pyexn option"
  tls_connect :: "state \<Rightarrow> string \<Rightarrow> nat \<Rightarrow> pyexn option"
  peer_not_after :: "state \<Rightarrow> string \<Rightarrow> pyexn + int"
  utcnow :: "state \<Rightarrow> int"
  os_popen :: "state \<Rightarrow> string \<Rightarrow> pyexn + cmd_result"
  requests_get :: "state \<Rightarrow> string \<Rightarrow> pyval \<Rightarrow> pyval \<Rightarrow> pyexn + response"
  requests_post :: "state \<Rightarrow> string \<Rightarrow> pyval \<Rightarrow> pyval \<Rightarrow> pyexn + response"
  boto3_client :: "state \<Rightarrow> string \<Rightarrow> pyexn + nat"
  describe_security_groups :: "state \<Rightarrow> nat \<Rightarrow> string \<Rightarrow> pyexn + security_group list"
  authorize_ingress ::
    "state \<Rightarrow> nat \<Rightarrow> string \<Rightarrow> ip_permission list \<Rightarrow> pyexn + security_group list"
  revoke_ingress ::
    "state \<Rightarrow> nat \<Rightarrow> string \<Rightarrow> ip_permission list \<Rightarrow> pyexn + security_group list"

subsection \<open>Statements in sequence, with exceptions\<close>

type_synonym 'a proc = "state \<Rightarrow> (pyexn + 'a) \<times> state"

definition ret :: "'a \<Rightarrow> 'a proc" where
  "ret x = (\<lambda>s. (Inr x, s))"

definition raise :: "pyexn \<Rightarrow> 'a proc" where
  "raise e = (\<lambda>s. (Inl e, s))"

definition lift :: "pyexn + 'a \<Rightarrow> 'a proc" where
  "lift r = (\<lambda>s. (r, s))"

definition pbind :: "'a proc \<Rightarrow> ('a \<Rightarrow> 'b proc) \<Rightarrow> 'b proc" where
  \<comment> \<open>run \<open>m\<close>, then the rest of the block; an exception skips the rest\<close>
  "pbind m f = (\<lambda>s. case m s of (Inl e, s') \<Rightarrow> (Inl e, s') | (Inr x, s') \<Rightarrow> f x s')"

definition try_except :: "'a proc \<Rightarrow> (pyexn \<Rightarrow> bool) \<Rightarrow> (pyexn \<Rightarrow> 'a proc) \<Rightarrow> 'a proc" where
  \<comment> \<open>\<open>try: m  except C as e: handler\<close>, where \<open>caught\<close> tells the instances of \<open>C\<close>\<close>
  "try_except m caught handler =
     (\<lambda>s. case m s of
        (Inl e, s') \<Rightarrow> (if caught e then handler e s' else (Inl e, s'))
      | (Inr x, s') \<Rightarrow> (Inr x, s'))"

definition emit :: "event \<Rightarrow> state \<Rightarrow> state" where
  "emit ev s = s\<lparr>trace := trace s @ [ev]\<rparr>"

definition print :: "string \<Rightarrow> unit proc" where
  "print line = (\<lambda>s. (Inr (), emit (Print line) s))"

definition call :: "event \<Rightarrow> (state \<Rightarrow> pyexn + 'a) \<Rightarrow> 'a proc" where
  \<comment> \<open>a call to a collaborator that does not change the security groups\<close>
  "call ev answer = (\<lambda>s. (answer s, emit ev s))"

definition mutate :: "event \<Rightarrow> (state \<Rightarrow> pyexn + security_group list) \<Rightarrow> unit proc" where
  \<comment> \<open>a call to the EC2 API that rewrites the security groups when it returns\<close>
  "mutate ev answer =
     (\<lambda>s. case answer s of
        Inl e \<Rightarrow> (Inl e, emit ev s)
      | Inr gs \<Rightarrow> (Inr (), (emit ev s)\<lparr>groups := gs\<rparr>))"

subsection \<open>String methods\<close>

definition lower_chr :: "char \<Rightarrow> char" where
  \<comment> \<open>\<open>str.lower\<close> on one character: A-Z and the capital letters of Latin-1\<close>
  "lower_chr c =
     (let n = (of_char c :: nat)
      in if (0x41 \<le> n \<and> n \<le> 0x5A) \<or> (0xC0 \<le> n \<and> n \<le> 0xDE \<and> n \<noteq> 0xD7)
         then char_of (n + 0x20) else c)"

definition py_lower :: "string \<Rightarrow> string" where
  "py_lower s = map lower_chr s"

definition is_space :: "char \<Rightarrow> bool" where
  \<comment> \<open>the characters below 256 for which \<open>str.isspace\<close> holds, which \<open>rstrip()\<close> strips\<close>
  "is_space c =
     (let n = (of_char c :: nat)
      in n = 0x20 \<or> (0x09 \<le> n \<and> n \<le> 0x0D) \<or> (0x1C \<le> n \<and> n \<le> 0x1F)
         \<or> n = 0x85 \<or> n = 0xA0)"

definition rstrip :: "string \<Rightarrow> string" where
  "rstrip s = rev (dropWhile is_space (rev s))"

subsection \<open>Functions, lines 112-180\<close>

definition request ::
  "world \<Rightarrow> string \<Rightarrow> string \<Rightarrow> pyval \<Rightarrow> pyval list \<Rightarrow> response option proc" where
  \<comment> \<open>falls off the end, returning \<open>None\<close>, for a method that is neither post nor get\<close>
  "request w method_type url headers args =
     (let method_type = py_lower method_type in
      try_except
        (if method_type = ''post'' then
           pbind (lift (py_index args 0)) (\<lambda>data.
           pbind (call (RequestsPost url) (\<lambda>s. requests_post w s url headers data)) (\<lambda>r.
           ret (Some r)))
         else if method_type = ''get'' then
           pbind (lift (py_index args 0)) (\<lambda>data.
           pbind (call (RequestsGet url) (\<lambda>s. requests_get w s url headers data)) (\<lambda>r.
           ret (Some r)))
         else ret None)
        is_RequestException
        (\<lambda>e. raise (SystemExit (ExitObj (py_str e)))))"

definition run_cmd :: "world \<Rightarrow> string \<Rightarrow> string proc" where
  \<comment> \<open>\<open>os.popen(cmd).read()\<close>: the exit status of the command is never read\<close>
  "run_cmd w cmd =
     pbind (call (Popen cmd) (\<lambda>s. os_popen w s cmd)) (\<lambda>res.
     ret (rstrip (stdout_text res)))"

text \<open>
  \<open>remaining.total_seconds()\<close> is the quotient of two integers, the microseconds of the
  difference and \<open>10**6\<close>, as a double: the nearest one, ties to the even mantissa.
  \<open>int\<close> then drops the fraction of that double. Both steps are exact integer arithmetic
  on the 53-bit mantissa \<open>m\<close> and the exponent \<open>e\<close> of the double.
\<close>

definition round_half_even :: "nat \<Rightarrow> nat \<Rightarrow> nat" where
  \<comment> \<open>the integer nearest to \<open>p / q\<close>\<close>
  "round_half_even p q =
     (let f = p div q; r = p mod q
      in if 2 * r < q then f
         else if q < 2 * r then f + 1
         else if even f then f else f + 1)"

function floor_log2 :: "nat \<Rightarrow> nat" where
  \<comment> \<open>\<open>n.bit_length() - 1\<close> for \<open>n \<ge> 1\<close>\<close>
  "floor_log2 n = (if n < 2 then 0 else 1 + floor_log2 (n div 2))"
  by pat_completeness auto
termination
  by (relation "measure (\<lambda>n. n)") auto

definition trunc_true_div :: "nat \<Rightarrow> nat \<Rightarrow> nat" where
  \<comment> \<open>\<open>int(a / b)\<close> for integers \<open>a \<ge> 0\<close> and \<open>b > 0\<close>, through the double \<open>a / b\<close>\<close>
  "trunc_true_div a b =
     (let n = a div b
      in if n = 0 then 0
         else let e = floor_log2 n
              in if e \<le> 52
                 then round_half_even (a * 2 ^ (52 - e)) b div 2 ^ (52 - e)
                 else round_half_even a (b * 2 ^ (e - 52)) * 2 ^ (e - 52))"

definition int_of_seconds :: "int \<Rightarrow> int" where
  \<comment> \<open>\<open>int(remaining.total_seconds())\<close> for a difference of \<open>us\<close> microseconds; the quotient
      of a negative number is the negated quotient of its absolute value\<close>
  "int_of_seconds us =
     (if us < 0 then - int (trunc_true_div (nat (- us)) 1000000)
      else int (trunc_true_div (nat us) 1000000))"

definition ssl_expiration :: "world \<Rightarrow> string \<Rightarrow> (int \<times> int \<times> int) proc" where
  \<comment> \<open>lines 137-142 stand before the \<open>try\<close>: what they raise is not caught\<close>
  "ssl_expiration w hostname =
     pbind (\<lambda>s. (case tls_socket w s hostname of None \<Rightarrow> Inr () | Some e \<Rightarrow> Inl e, s)) (\<lambda>_.
     pbind
       (try_except
          (call (Connect hostname 443)
             (\<lambda>s. case tls_connect w s hostname 443 of None \<Rightarrow> Inr () | Some e \<Rightarrow> Inl e))
          is_Exception
          (\<lambda>e. pbind (print (py_str e)) (\<lambda>_. raise (SystemExit ExitNone))))
       (\<lambda>_.
     pbind (\<lambda>s. (peer_not_after w s hostname, s)) (\<lambda>expiration.
     pbind (\<lambda>s. (Inr (utcnow w s), s)) (\<lambda>now.
       let remaining = expiration * 1000000 - now;
           seconds_rem = int_of_seconds remaining
       in ret (expiration, remaining, seconds_rem)))))"

definition get_security_group_by_name :: "world \<Rightarrow> nat \<Rightarrow> string \<Rightarrow> string proc" where
  \<comment> \<open>line 163 rebinds \<open>ec2\<close>: the handle passed in is never used\<close>
  "get_security_group_by_name w ec2 name =
     pbind (call (Boto3Client ''ec2'') (\<lambda>s. boto3_client w s ''ec2'')) (\<lambda>ec2.
     pbind (call (DescribeSecurityGroups ec2 name) (\<lambda>s. describe_security_groups w s ec2 name))
       (\<lambda>resp.
     pbind (lift (py_index resp 0)) (\<lambda>g.
     ret (GroupId g))))"

definition add_rule_to_security_group :: "config \<Rightarrow> world \<Rightarrow> nat \<Rightarrow> string \<Rightarrow> unit proc" where
  "add_rule_to_security_group cfg w ec2 security_group =
     mutate (AuthorizeIngress ec2 security_group (temp_rule cfg))
       (\<lambda>s. authorize_ingress w s ec2 security_group (temp_rule cfg))"

definition remove_rule_from_security_group ::
  "config \<Rightarrow> world \<Rightarrow> nat \<Rightarrow> string \<Rightarrow> unit proc" where
  "remove_rule_from_security_group cfg w ec2 security_group =
     mutate (RevokeIngress ec2 security_group (temp_rule cfg))
       (\<lambda>s. revoke_ingress w s ec2 security_group (temp_rule cfg))"

subsection \<open>The script, lines 188-225\<close>

definition identity_url :: string where
  "identity_url = ''http://169.254.169.254/latest/dynamic/instance-identity/document''"

definition security_groups_url :: string where
  "security_groups_url = ''http://169.254.169.254/latest/meta-data/security-groups''"

definition certbot_cmd :: "string \<Rightarrow> string" where
  \<comment> \<open>the f-string of lines 212-215\<close>
  "certbot_cmd d =
     [CHR 0x0A] @ ''            certbot -d '' @ d @ '' --standalone certonly''
     @ [CHR 0x0A] @ ''            #certbot-auto -d '' @ d @ '' --standalone certonly''
     @ [CHR 0x0A] @ ''        ''"

definition json_of :: "response option \<Rightarrow> pyexn + pyval" where
  \<comment> \<open>\<open>resp.json()\<close>\<close>
  "json_of resp =
     (case resp of
        None \<Rightarrow> Inl (Raised AttributeError ''NoneType object has no attribute json'')
      | Some r \<Rightarrow> resp_json r)"

definition text_of :: "response option \<Rightarrow> pyexn + string" where
  \<comment> \<open>\<open>resp.text\<close>\<close>
  "text_of resp =
     (case resp of
        None \<Rightarrow> Inl (Raised AttributeError ''NoneType object has no attribute text'')
      | Some r \<Rightarrow> Inr (resp_text r))"

definition execute_renewal :: "config \<Rightarrow> world \<Rightarrow> unit proc" where
  \<comment> \<open>lines 192-225, the body of the \<open>if\<close>\<close>
  "execute_renewal cfg w =
     pbind (print ''Running pre-command'') (\<lambda>_.
     pbind (run_cmd w (pre_command cfg)) (\<lambda>out.
     pbind (print out) (\<lambda>_.
     pbind (request w ''get'' identity_url (PDict []) [PDict []]) (\<lambda>resp.
     pbind (lift (json_of resp)) (\<lambda>doc.
     pbind (lift (py_getitem doc ''region'')) (\<lambda>region.
     pbind (call (Boto3Client ''ec2'') (\<lambda>s. boto3_client w s ''ec2'')) (\<lambda>ec2.
     pbind (request w ''get'' security_groups_url (PDict []) [PDict []]) (\<lambda>resp.
     pbind (lift (text_of resp)) (\<lambda>name.
     pbind (get_security_group_by_name w ec2 name) (\<lambda>security_group.
     pbind (add_rule_to_security_group cfg w ec2 security_group) (\<lambda>_.
     pbind (run_cmd w (certbot_cmd (domain cfg))) (\<lambda>out.
     pbind (remove_rule_from_security_group cfg w ec2 security_group) (\<lambda>_.
     pbind (print ''Running post-command'') (\<lambda>_.
     pbind (run_cmd w (pre_command cfg)) (\<lambda>out.
     print out)))))))))))))))"

definition main :: "config \<Rightarrow> world \<Rightarrow> string list \<Rightarrow> unit proc" where
  "main cfg w argv =
     pbind (lift (py_index argv 1)) (\<lambda>hostname.
     pbind (ssl_expiration w hostname) (\<lambda>(expiration, remaining, seconds_left).
       if seconds_left < threshold cfg then execute_renewal cfg w else ret ()))"

definition exit_status :: "pyexn + unit \<Rightarrow> int" where
  \<comment> \<open>the status the interpreter exits with: 0 at the end of the script and for
      \<open>SystemExit(None)\<close>, 1 for \<open>SystemExit\<close> of an object that is not an integer and for
      an exception nobody caught\<close>
  "exit_status r =
     (case r of
        Inr u \<Rightarrow> 0
      | Inl (SystemExit ExitNone) \<Rightarrow> 0
      | Inl (SystemExit (ExitObj m)) \<Rightarrow> 1
      | Inl (Raised c m) \<Rightarrow> 1)"

subsection \<open>Blocks of the script and readings of its trace\<close>

text \<open>
  The specification names the test of line 191 \<open>Decide\<close>; \<open>Decide\<close> is that test with the
  specification's two outcomes.
\<close>

datatype decision = Renew | Skip

definition Decide :: "int \<Rightarrow> int \<Rightarrow> decision" where
  "Decide seconds_left thr = (if seconds_left < thr then Renew else Skip)"

definition prepare_exposure :: "config \<Rightarrow> world \<Rightarrow> (nat \<times> string) proc" where
  \<comment> \<open>lines 192-206: everything before the rule is added, leaving \<open>ec2\<close> and
      \<open>security_group\<close>\<close>
  "prepare_exposure cfg w =
     pbind (print ''Running pre-command'') (\<lambda>_.
     pbind (run_cmd w (pre_command cfg)) (\<lambda>out.
     pbind (print out) (\<lambda>_.
     pbind (request w ''get'' identity_url (PDict []) [PDict []]) (\<lambda>resp.
     pbind (lift (json_of resp)) (\<lambda>doc.
     pbind (lift (py_getitem doc ''region'')) (\<lambda>region.
     pbind (call (Boto3Client ''ec2'') (\<lambda>s. boto3_client w s ''ec2'')) (\<lambda>ec2.
     pbind (request w ''get'' security_groups_url (PDict []) [PDict []]) (\<lambda>resp.
     pbind (lift (text_of resp)) (\<lambda>name.
     pbind (get_security_group_by_name w ec2 name) (\<lambda>security_group.
     ret (ec2, security_group)))))))))))"

definition renewal_window :: "config \<Rightarrow> world \<Rightarrow> nat \<Rightarrow> string \<Rightarrow> unit proc" where
  \<comment> \<open>lines 208-218: add the rule, run the renewal tool, remove the rule\<close>
  "renewal_window cfg w ec2 security_group =
     pbind (add_rule_to_security_group cfg w ec2 security_group) (\<lambda>_.
     pbind (run_cmd w (certbot_cmd (domain cfg))) (\<lambda>out.
     remove_rule_from_security_group cfg w ec2 security_group))"

definition through_removal :: "config \<Rightarrow> world \<Rightarrow> unit proc" where
  \<comment> \<open>lines 192-218: the script up to and including the removal of the rule\<close>
  "through_removal cfg w =
     pbind (prepare_exposure cfg w) (\<lambda>(ec2, security_group).
     renewal_window cfg w ec2 security_group)"

definition post_hook :: "world \<Rightarrow> string \<Rightarrow> unit proc" where
  \<comment> \<open>lines 222-225, for the command they run\<close>
  "post_hook w cmd =
     pbind (print ''Running post-command'') (\<lambda>_.
     pbind (run_cmd w cmd) (\<lambda>out.
     print out))"

definition is_revoke :: "event \<Rightarrow> bool" where
  "is_revoke ev = (case ev of RevokeIngress c g r \<Rightarrow> True | _ \<Rightarrow> False)"

definition is_ec2_call :: "event \<Rightarrow> bool" where
  \<comment> \<open>a request to the EC2 API: describe, authorize or revoke\<close>
  "is_ec2_call ev =
     (case ev of
        DescribeSecurityGroups c n \<Rightarrow> True
      | AuthorizeIngress c g r \<Rightarrow> True
      | RevokeIngress c g r \<Rightarrow> True
      | _ \<Rightarrow> False)"

definition is_mutation :: "event \<Rightarrow> bool" where
  \<comment> \<open>a request that changes a security group\<close>
  "is_mutation ev =
     (case ev of AuthorizeIngress c g r \<Rightarrow> True | RevokeIngress c g r \<Rightarrow> True | _ \<Rightarrow> False)"

definition with_exit_codes :: "(state \<Rightarrow> string \<Rightarrow> int \<Rightarrow> int) \<Rightarrow> world \<Rightarrow> world" where
  \<comment> \<open>the same world, except that every command exits with another status\<close>
  "with_exit_codes f w =
     w\<lparr>os_popen := \<lambda>s cmd.
          (case os_popen w s cmd of
             Inl e \<Rightarrow> Inl e
           | Inr res \<Rightarrow> Inr (res\<lparr>exit_code := f s cmd (exit_code res)\<rparr>))\<rparr>"

subsection \<open>Test doubles for the collaborators\<close>

text \<open>
  A security-group store that answers as EC2 does in a VPC: authorizing a rule the group
  already has is refused with \<open>InvalidPermission.Duplicate\<close>, revoking a rule it does not
  have with \<open>InvalidPermission.NotFound\<close>.
\<close>

definition has_group :: "security_group list \<Rightarrow> string \<Rightarrow> bool" where
  "has_group gs gid = list_ex (\<lambda>g. GroupId g = gid) gs"

definition rules_of :: "security_group list \<Rightarrow> string \<Rightarrow> ip_permission list" where
  "rules_of gs gid = concat (map IpPermissions (filter (\<lambda>g. GroupId g = gid) gs))"

definition ec2_authorize ::
  "security_group list \<Rightarrow> string \<Rightarrow> ip_permission list \<Rightarrow> pyexn + security_group list" where
  "ec2_authorize gs gid perms =
     (if \<not> has_group gs gid then Inl (Raised ClientError ''InvalidGroup.NotFound'')
      else if list_ex (\<lambda>p. List.member (rules_of gs gid) p) perms
        then Inl (Raised ClientError ''InvalidPermission.Duplicate'')
      else Inr (map (\<lambda>g. if GroupId g = gid
                          then g\<lparr>IpPermissions := IpPermissions g @ perms\<rparr> else g) gs))"

definition ec2_revoke ::
  "security_group list \<Rightarrow> string \<Rightarrow> ip_permission list \<Rightarrow> pyexn + security_group list" where
  "ec2_revoke gs gid perms =
     (if \<not> has_group gs gid then Inl (Raised ClientError ''InvalidGroup.NotFound'')
      else if list_ex (\<lambda>p. \<not> List.member (rules_of gs gid) p) perms
        then Inl (Raised ClientError ''InvalidPermission.NotFound'')
      else Inr (map (\<lambda>g. if GroupId g = gid
                          then g\<lparr>IpPermissions :=
                                  filter (\<lambda>p. \<not> List.member perms p) (IpPermissions g)\<rparr>
                          else g) gs))"

text \<open>
  \<open>mock_world secs\<close>: \<open>wrap_socket\<close> refuses an empty host name and one that starts with
  a dot, as the \<open>ssl\<close> module does; the host answers with a certificate that expires in \<open>secs\<close> seconds,
  every command prints \<open>done\<close> and exits with 0, the metadata service knows the region and
  the group name \<open>web\<close>, and the EC2 API is the store above.
\<close>

definition mock_world :: "int \<Rightarrow> world" where
  "mock_world secs =
     \<lparr> tls_socket = (\<lambda>s h.
          if h = [] \<or> take 1 h = ''.''
            then Some (Raised ValueError
                   ''server_hostname cannot be an empty string or start with a leading dot.'')
          else None),
       tls_connect = (\<lambda>s h p. None),
       peer_not_after = (\<lambda>s h. Inr (1700000000 + secs)),
       utcnow = (\<lambda>s. 1700000000 * 1000000),
       os_popen = (\<lambda>s cmd. Inr \<lparr> stdout_text = ''done'' @ [CHR 0x0A], exit_code = 0 \<rparr>),
       requests_get = (\<lambda>s url headers data.
          if url = identity_url
            then Inr \<lparr> resp_text = ''{}'',
                       resp_json = Inr (PDict [(''region'', PStr ''us-east-1'')]) \<rparr>
          else if url = security_groups_url
            then Inr \<lparr> resp_text = ''web'',
                       resp_json = Inl (Raised ValueError ''Expecting value'') \<rparr>
          else Inl (Raised RequestException ''Connection refused'')),
       requests_post = (\<lambda>s url headers data. Inl (Raised RequestException ''Connection refused'')),
       boto3_client = (\<lambda>s service. Inr (length (trace s))),
       describe_security_groups = (\<lambda>s c name. Inr (filter (\<lambda>g. GroupName g = name) (groups s))),
       authorize_ingress = (\<lambda>s c gid perms. ec2_authorize (groups s) gid perms),
       revoke_ingress = (\<lambda>s c gid perms. ec2_revoke (groups s) gid perms) \<rparr>"

definition three_days :: int where
  "three_days = 3 * 24 * 60 * 60"

definition thirty_days :: int where
  "thirty_days = 30 * 24 * 60 * 60"

definition instance_state :: state where
  \<comment> \<open>before the run: nothing has happened, and the group \<open>web\<close> has no rule\<close>
  "instance_state =
     \<lparr> trace = [],
       groups = [\<lparr> GroupId = ''sg-1'', GroupName = ''web'', IpPermissions = [] \<rparr>] \<rparr>"

definition stale_state :: state where
  \<comment> \<open>before the run, when an earlier run left the temporary rule behind\<close>
  "stale_state =
     \<lparr> trace = [],
       groups = [\<lparr> GroupId = ''sg-1'', GroupName = ''web'',
                   IpPermissions = temp_rule default_config \<rparr>] \<rparr>"

definition argv0 :: "string list" where
  "argv0 = [''letsrenew.py'', ''mydomain.tld'']"

definition tool_fails_world :: world where
  \<comment> \<open>the renewal tool prints an error and exits with 1\<close>
  "tool_fails_world =
     (mock_world three_days)
       \<lparr>os_popen := \<lambda>s cmd.
          if cmd = certbot_cmd ''mydomain.tld''
            then Inr \<lparr> stdout_text = ''Challenge failed'', exit_code = 1 \<rparr>
          else Inr \<lparr> stdout_text = ''done'' @ [CHR 0x0A], exit_code = 0 \<rparr>\<rparr>"

definition tool_raises_world :: world where
  \<comment> \<open>\<open>os.popen\<close> raises when asked to start the renewal tool\<close>
  "tool_raises_world =
     (mock_world three_days)
       \<lparr>os_popen := \<lambda>s cmd.
          if cmd = certbot_cmd ''mydomain.tld''
            then Inl (Raised OSError ''Cannot allocate memory'')
          else Inr \<lparr> stdout_text = ''done'' @ [CHR 0x0A], exit_code = 0 \<rparr>\<rparr>"

definition unreachable_world :: world where
  \<comment> \<open>the TLS connection times out\<close>
  "unreachable_world =
     (mock_world three_days)\<lparr>tls_connect := \<lambda>s h p. Some (Raised OSError ''timed out'')\<rparr>"

definition revoke_fails_world :: world where
  \<comment> \<open>the EC2 API refuses every revoke\<close>
  "revoke_fails_world =
     (mock_world three_days)
       \<lparr>revoke_ingress := \<lambda>s c gid perms. Inl (Raised ClientError ''RequestLimitExceeded'')\<rparr>"

definition failing_commands_world :: world where
  \<comment> \<open>\<open>mock_world\<close>, except that every command exits with status 1\<close>
  "failing_commands_world = with_exit_codes (\<lambda>s cmd n. 1) (mock_world three_days)"

definition prepared_state :: state where
  \<comment> \<open>\<open>instance_state\<close> after lines 192-206 in any of the worlds above\<close>
  "prepared_state =
     \<lparr> trace =
         [Print ''Running pre-command'', Popen (pre_command default_config), Print ''done'',
          RequestsGet identity_url, Boto3Client ''ec2'', RequestsGet security_groups_url,
          Boto3Client ''ec2'', DescribeSecurityGroups 6 ''web''],
       groups = [\<lparr> GroupId = ''sg-1'', GroupName = ''web'', IpPermissions = [] \<rparr>] \<rparr>"

definition open_groups :: "security_group list" where
  \<comment> \<open>the group \<open>web\<close> with the temporary rule in it\<close>
  "open_groups =
     [\<lparr> GroupId = ''sg-1'', GroupName = ''web'', IpPermissions = temp_rule default_config \<rparr>]"

definition metadata_down_world :: world where
  \<comment> \<open>the certificate is due, and the metadata service does not answer\<close>
  "metadata_down_world =
     (mock_world three_days)
       \<lparr>requests_get := \<lambda>s url headers data. Inl (Raised RequestException ''Connection refused'')\<rparr>"

section \<open>Properties of the redirect handler\<close>

lemma split_chr_first:
  "\<exists>ps. split_chr sep s = takeWhile (\<lambda>c. c \<noteq> sep) s # ps"
  by (induction s) auto

lemma py_index_split_chr:
  "py_index (split_chr sep s) 0 = Inr (takeWhile (\<lambda>c. c \<noteq> sep) s)"
proof -
  obtain ps where "split_chr sep s = takeWhile (\<lambda>c. c \<noteq> sep) s # ps"
    using split_chr_first by blast
  then show ?thesis by (simp add: py_index_def)
qed

text \<open>
  C10. For an event whose \<open>headers\<close> dictionary holds the string \<open>h\<close> under \<open>Host\<close>, the
  handler returns status 302, the location \<open>https://my-bucket-name.s3.amazonaws.com/\<close>
  followed by the part of \<open>h\<close> before its first dot (all of \<open>h\<close> when it has none), and the
  body \<open>{}\<close>. An event dictionary without \<open>headers\<close>, and a \<open>headers\<close> dictionary without
  \<open>Host\<close>, make the handler raise \<open>KeyError\<close> on the missing key.
\<close>

theorem lambda_handler_redirect:
  "(map_of ev ''headers'' = Some (PDict hs) \<and> map_of hs ''Host'' = Some (PStr h) \<longrightarrow>
      lambda_handler (PDict ev) context =
        Inr (PDict
          [(''statusCode'', PInt 302),
           (''headers'',
              PDict [(''Location'',
                      PStr (''https://'' @ ''my-bucket-name'' @ ''.s3.amazonaws.com/''
                            @ takeWhile (\<lambda>c. c \<noteq> CHR ''.'') h))]),
           (''body'', PStr ''{}'')]))
   \<and> (map_of ev ''headers'' = None \<longrightarrow>
      lambda_handler (PDict ev) context = Inl (Raised KeyError ''headers''))
   \<and> (map_of ev ''headers'' = Some (PDict hs) \<and> map_of hs ''Host'' = None \<longrightarrow>
      lambda_handler (PDict ev) context = Inl (Raised KeyError ''Host''))"
  by (simp add: lambda_handler_def py_getitem_def py_split_def py_index_split_chr)

theorem lambda_handler_redirect_witness:
  "lambda_handler (PDict [(''headers'', PDict [(''Host'', PStr ''files.example.com'')])]) PNone =
     Inr (PDict
       [(''statusCode'', PInt 302),
        (''headers'',
           PDict [(''Location'', PStr ''https://my-bucket-name.s3.amazonaws.com/files'')]),
        (''body'', PStr ''{}'')])
   \<and> lambda_handler (PDict [(''headers'', PDict [(''Host'', PStr ''localhost'')])]) PNone =
     Inr (PDict
       [(''statusCode'', PInt 302),
        (''headers'',
           PDict [(''Location'', PStr ''https://my-bucket-name.s3.amazonaws.com/localhost'')]),
        (''body'', PStr ''{}'')])
   \<and> lambda_handler (PDict [(''path'', PStr ''/'')]) PNone = Inl (Raised KeyError ''headers'')
   \<and> lambda_handler (PDict [(''headers'', PDict [(''Accept'', PStr ''*/*'')])]) PNone =
     Inl (Raised KeyError ''Host'')"
  using
    lambda_handler_redirect
      [of "[(''headers'', PDict [(''Host'', PStr ''files.example.com'')])]"
          "[(''Host'', PStr ''files.example.com'')]" "''files.example.com''" PNone]
    lambda_handler_redirect
      [of "[(''headers'', PDict [(''Host'', PStr ''localhost'')])]"
          "[(''Host'', PStr ''localhost'')]" "''localhost''" PNone]
    lambda_handler_redirect [of "[(''path'', PStr ''/'')]" "[]" "[]" PNone]
    lambda_handler_redirect
      [of "[(''headers'', PDict [(''Accept'', PStr ''*/*'')])]"
          "[(''Accept'', PStr ''*/*'')]" "[]" PNone]
  by simp

section \<open>Properties of the renewal wrapper\<close>

subsection \<open>Unfolding the script\<close>

lemma pbind_apply:
  "pbind m f s = (case m s of (Inl e, s') \<Rightarrow> (Inl e, s') | (Inr x, s') \<Rightarrow> f x s')"
  by (simp add: pbind_def)

lemma pbind_assoc: "pbind (pbind m f) g = pbind m (\<lambda>x. pbind (f x) g)"
  by (auto simp: pbind_def fun_eq_iff split: prod.splits sum.splits)

lemma pbind_ret: "pbind (ret x) f = f x"
  by (simp add: pbind_def ret_def)

lemma execute_renewal_blocks:
  "execute_renewal cfg w =
     pbind (prepare_exposure cfg w) (\<lambda>(ec2, security_group).
     pbind (renewal_window cfg w ec2 security_group) (\<lambda>_.
     post_hook w (pre_command cfg)))"
  by (simp add: execute_renewal_def prepare_exposure_def renewal_window_def post_hook_def
      pbind_assoc pbind_ret)

lemma execute_renewal_prepared:
  assumes "prepare_exposure cfg w s = (Inr (ec2, sg), s1)"
  shows "execute_renewal cfg w s =
     pbind (renewal_window cfg w ec2 sg) (\<lambda>_. post_hook w (pre_command cfg)) s1"
  using assms by (simp add: execute_renewal_blocks pbind_apply)

lemma execute_renewal_unprepared:
  assumes "prepare_exposure cfg w s = (Inl e, s1)"
  shows "execute_renewal cfg w s = (Inl e, s1)"
  using assms by (simp add: execute_renewal_blocks pbind_apply)

lemma execute_renewal_after_removal:
  "execute_renewal cfg w =
     pbind (through_removal cfg w) (\<lambda>_. post_hook w (pre_command cfg))"
  by (simp add: execute_renewal_blocks through_removal_def pbind_assoc split_def)

lemma run_cmd_apply:
  "run_cmd w cmd s =
     (case os_popen w s cmd of
        Inl e \<Rightarrow> (Inl e, emit (Popen cmd) s)
      | Inr res \<Rightarrow> (Inr (rstrip (stdout_text res)), emit (Popen cmd) s))"
  by (simp add: run_cmd_def pbind_def call_def ret_def split: sum.splits)

lemma add_rule_apply:
  "add_rule_to_security_group cfg w ec2 sg s =
     (case authorize_ingress w s ec2 sg (temp_rule cfg) of
        Inl e \<Rightarrow> (Inl e, emit (AuthorizeIngress ec2 sg (temp_rule cfg)) s)
      | Inr gs \<Rightarrow> (Inr (), (emit (AuthorizeIngress ec2 sg (temp_rule cfg)) s)\<lparr>groups := gs\<rparr>))"
  by (simp add: add_rule_to_security_group_def mutate_def)

lemma remove_rule_apply:
  "remove_rule_from_security_group cfg w ec2 sg s =
     (case revoke_ingress w s ec2 sg (temp_rule cfg) of
        Inl e \<Rightarrow> (Inl e, emit (RevokeIngress ec2 sg (temp_rule cfg)) s)
      | Inr gs \<Rightarrow> (Inr (), (emit (RevokeIngress ec2 sg (temp_rule cfg)) s)\<lparr>groups := gs\<rparr>))"
  by (simp add: remove_rule_from_security_group_def mutate_def)

lemma post_hook_apply:
  "post_hook w cmd s =
     (case os_popen w (emit (Print ''Running post-command'') s) cmd of
        Inl e \<Rightarrow> (Inl e, emit (Popen cmd) (emit (Print ''Running post-command'') s))
      | Inr res \<Rightarrow>
          (Inr (), emit (Print (rstrip (stdout_text res)))
                     (emit (Popen cmd) (emit (Print ''Running post-command'') s))))"
  by (simp add: post_hook_def pbind_apply print_def run_cmd_apply split: sum.splits)

lemma request_get_apply:
  "request w ''get'' url headers [d] s =
     (case requests_get w s url headers d of
        Inl e \<Rightarrow> (if is_RequestException e then (Inl (SystemExit (ExitObj (py_str e))), emit (RequestsGet url) s)
                  else (Inl e, emit (RequestsGet url) s))
      | Inr r \<Rightarrow> (Inr (Some r), emit (RequestsGet url) s))"
  by (simp add: request_def py_lower_def lower_chr_def try_except_def pbind_def lift_def
      py_index_def call_def ret_def raise_def split: sum.splits)

lemma get_security_group_by_name_apply:
  "get_security_group_by_name w ec2 name s =
     (case boto3_client w s ''ec2'' of
        Inl e \<Rightarrow> (Inl e, emit (Boto3Client ''ec2'') s)
      | Inr c \<Rightarrow>
         (case describe_security_groups w (emit (Boto3Client ''ec2'') s) c name of
            Inl e \<Rightarrow> (Inl e, emit (DescribeSecurityGroups c name) (emit (Boto3Client ''ec2'') s))
          | Inr resp \<Rightarrow>
             (case resp of
                [] \<Rightarrow> Inl (Raised IndexError ''list index out of range'')
              | g # _ \<Rightarrow> Inr (GroupId g),
              emit (DescribeSecurityGroups c name) (emit (Boto3Client ''ec2'') s))))"
  by (simp add: get_security_group_by_name_def pbind_def call_def lift_def ret_def py_index_def
      split: sum.splits list.splits)

lemma prepare_exposure_frame:
  assumes "prepare_exposure cfg w s = (r, s1)"
  shows "groups s1 = groups s
     \<and> filter is_mutation (trace s1) = filter is_mutation (trace s)
     \<and> filter is_revoke (trace s1) = filter is_revoke (trace s)"
  using assms
  by (auto simp: prepare_exposure_def pbind_apply print_def run_cmd_apply request_get_apply
      get_security_group_by_name_apply lift_def call_def ret_def emit_def is_mutation_def
      is_revoke_def
      split: sum.splits prod.splits if_splits list.splits)

lemma run_cmd_exit_codes: "run_cmd (with_exit_codes f w) cmd = run_cmd w cmd"
  by (auto simp: fun_eq_iff run_cmd_apply with_exit_codes_def split: sum.splits)

lemma main_exit_codes: "main cfg (with_exit_codes f w) argv = main cfg w argv"
proof -
  have other:
    "ssl_expiration (with_exit_codes f w) = ssl_expiration w"
    "request (with_exit_codes f w) = request w"
    "get_security_group_by_name (with_exit_codes f w) = get_security_group_by_name w"
    "add_rule_to_security_group cfg (with_exit_codes f w) = add_rule_to_security_group cfg w"
    "remove_rule_from_security_group cfg (with_exit_codes f w) =
       remove_rule_from_security_group cfg w"
    by (simp_all add: fun_eq_iff ssl_expiration_def request_def get_security_group_by_name_def
        add_rule_to_security_group_def remove_rule_from_security_group_def with_exit_codes_def
        Let_def)
  have boto: "\<And>s. boto3_client (with_exit_codes f w) s ''ec2'' = boto3_client w s ''ec2''"
    by (simp add: with_exit_codes_def)
  have "execute_renewal cfg (with_exit_codes f w) = execute_renewal cfg w"
    by (simp add: execute_renewal_def other run_cmd_exit_codes boto)
  then show ?thesis
    by (simp add: main_def other cong: if_cong)
qed

lemma int_of_seconds_three_days: "int_of_seconds 259200000000 = 259200"
  by (simp add: int_of_seconds_def trunc_true_div_def round_half_even_def Let_def)

lemma int_of_seconds_thirty_days: "int_of_seconds 2592000000000 = 2592000"
  by (simp add: int_of_seconds_def trunc_true_div_def round_half_even_def Let_def)

lemma int_of_seconds_rounds_up: "int_of_seconds 34359738367999999 = 34359738368"
  by (simp add: int_of_seconds_def trunc_true_div_def round_half_even_def Let_def)

lemma int_of_seconds_towards_zero: "int_of_seconds (- 1500000) = - 1"
  by (simp add: int_of_seconds_def trunc_true_div_def round_half_even_def Let_def)

lemmas eval_defs =
  main_def execute_renewal_def prepare_exposure_def renewal_window_def post_hook_def
  ssl_expiration_def request_def run_cmd_def get_security_group_by_name_def
  add_rule_to_security_group_def remove_rule_from_security_group_def
  pbind_def ret_def raise_def lift_def try_except_def emit_def print_def call_def mutate_def
  py_index_def py_getitem_def py_lower_def lower_chr_def rstrip_def is_space_def
  int_of_seconds_three_days json_of_def text_of_def py_str_def is_Exception_def
  is_RequestException_def identity_url_def security_groups_url_def certbot_cmd_def
  default_config_def mock_world_def instance_state_def argv0_def
  prepared_state_def open_groups_def three_days_def
  ec2_authorize_def ec2_revoke_def has_group_def rules_of_def
  exit_status_def is_revoke_def

subsection \<open>The claims\<close>

text \<open>
  C1, amended. Once the rule has been added, what happens to it depends on how the call of
  the renewal tool ends. If the call returns, whatever the tool printed or exited with, the
  run holds exactly one revoke request more than before, for the same handle, group and
  rule. If the call raises, the exception ends the script there: no revoke request is
  sent and the security groups stay as the authorize call left them.
\<close>

theorem removal_follows_returning_tool:
  assumes "prepare_exposure cfg w s = (Inr (ec2, sg), s1)"
    and "authorize_ingress w s1 ec2 sg (temp_rule cfg) = Inr gs"
    and "s2 = (emit (AuthorizeIngress ec2 sg (temp_rule cfg)) s1)\<lparr>groups := gs\<rparr>"
  shows "(case os_popen w s2 (certbot_cmd (domain cfg)) of
            Inr res \<Rightarrow>
              filter is_revoke (trace (snd (execute_renewal cfg w s))) =
                filter is_revoke (trace s) @ [RevokeIngress ec2 sg (temp_rule cfg)]
          | Inl e \<Rightarrow>
              execute_renewal cfg w s = (Inl e, emit (Popen (certbot_cmd (domain cfg))) s2)
              \<and> filter is_revoke (trace (snd (execute_renewal cfg w s))) =
                  filter is_revoke (trace s)
              \<and> groups (snd (execute_renewal cfg w s)) = gs)"
proof -
  have frame: "filter is_revoke (trace s1) = filter is_revoke (trace s)"
    using prepare_exposure_frame [OF assms(1)] by simp
  show ?thesis
    using assms(2,3) frame
    by (auto simp: execute_renewal_prepared [OF assms(1)] renewal_window_def pbind_apply
        add_rule_apply run_cmd_apply remove_rule_apply post_hook_apply emit_def is_revoke_def
        split: sum.splits)
qed

theorem removal_follows_returning_tool_witness:
  "os_popen tool_fails_world
     ((emit (AuthorizeIngress 4 ''sg-1'' (temp_rule default_config)) prepared_state)
        \<lparr>groups := open_groups\<rparr>)
     (certbot_cmd (domain default_config))
     = Inr \<lparr> stdout_text = ''Challenge failed'', exit_code = 1 \<rparr>
   \<and> filter is_revoke
        (trace (snd (execute_renewal default_config tool_fails_world instance_state)))
     = [RevokeIngress 4 ''sg-1'' (temp_rule default_config)]"
proof -
  let ?w = tool_fails_world
  have h1: "prepare_exposure default_config ?w instance_state =
      (Inr (4, ''sg-1''), prepared_state)"
    by (simp add: eval_defs tool_fails_world_def)
  have h2: "authorize_ingress ?w prepared_state 4 ''sg-1'' (temp_rule default_config) =
      Inr open_groups"
    by (simp add: eval_defs tool_fails_world_def)
  have h3: "os_popen ?w
      ((emit (AuthorizeIngress 4 ''sg-1'' (temp_rule default_config)) prepared_state)
         \<lparr>groups := open_groups\<rparr>)
      (certbot_cmd (domain default_config)) =
      Inr \<lparr> stdout_text = ''Challenge failed'', exit_code = 1 \<rparr>"
    by (simp add: tool_fails_world_def default_config_def)
  have h4: "filter is_revoke (trace instance_state) = []"
    by (simp add: instance_state_def)
  show ?thesis
    using removal_follows_returning_tool [OF h1 h2 refl] h3 h4 by simp
qed

text \<open>
  The claim as stated fails where \<open>os.popen\<close> raises for the renewal tool: the run ends
  with that exception, its last call is the tool's, it holds no revoke request, and the
  temporary rule is still in the group.
\<close>

theorem tool_exception_skips_removal:
  "fst (main default_config tool_raises_world argv0 instance_state) =
     Inl (Raised OSError ''Cannot allocate memory'')
   \<and> length (filter is_revoke
        (trace (snd (main default_config tool_raises_world argv0 instance_state)))) = 0
   \<and> last (trace (snd (main default_config tool_raises_world argv0 instance_state))) =
       Popen (certbot_cmd ''mydomain.tld'')
   \<and> groups (snd (main default_config tool_raises_world argv0 instance_state)) =
       [\<lparr> GroupId = ''sg-1'', GroupName = ''web'', IpPermissions = temp_rule default_config \<rparr>]"
  by (simp add: eval_defs tool_raises_world_def)

text \<open>
  C2. \<open>Decide\<close> depends on the seconds remaining and the threshold only: it is \<open>Renew\<close>
  exactly when the seconds remaining are strictly below the threshold and \<open>Skip\<close> otherwise,
  so equality gives \<open>Skip\<close>; and the script renews or stops as \<open>Decide\<close> says.
\<close>

theorem Decide_strict:
  "(Decide seconds_left thr = Renew \<longleftrightarrow> seconds_left < thr)
   \<and> (Decide seconds_left thr = Skip \<longleftrightarrow> thr \<le> seconds_left)
   \<and> Decide thr thr = Skip
   \<and> main cfg w argv =
       pbind (lift (py_index argv 1)) (\<lambda>hostname.
       pbind (ssl_expiration w hostname) (\<lambda>(expiration, remaining, seconds_left).
         case Decide seconds_left (threshold cfg) of
           Renew \<Rightarrow> execute_renewal cfg w
         | Skip \<Rightarrow> ret ()))"
proof -
  have branch: "\<And>(x::unit proc) y a b.
      (case Decide a b of Renew \<Rightarrow> x | Skip \<Rightarrow> y) = (if a < b then x else y)"
    by (simp add: Decide_def)
  show ?thesis
    by (simp add: main_def branch) (simp add: Decide_def)
qed

text \<open>
  C3. When the certificate check yields at least \<open>threshold\<close> seconds, the script ends
  normally right after the check: the only call it has made is the TLS connection, so no
  describe, authorize or revoke request was sent, and the security groups are as they were.
\<close>

theorem skip_leaves_cloud_untouched:
  assumes "ssl_expiration w hostname s = (Inr (expiration, remaining, seconds_left), s1)"
    and "threshold cfg \<le> seconds_left"
  shows "main cfg w (prog # hostname # rest) s = (Inr (), s1)
     \<and> trace s1 = trace s @ [Connect hostname 443]
     \<and> filter is_ec2_call (trace s1) = filter is_ec2_call (trace s)
     \<and> groups s1 = groups s
     \<and> exit_status (fst (main cfg w (prog # hostname # rest) s)) = 0"
proof -
  have run: "main cfg w (prog # hostname # rest) s = (Inr (), s1)"
    using assms by (simp add: main_def pbind_def lift_def py_index_def ret_def)
  have st: "s1 = emit (Connect hostname 443) s"
    using assms(1)
    by (auto simp: ssl_expiration_def pbind_def try_except_def call_def print_def raise_def
        ret_def Let_def split: sum.splits option.splits if_splits prod.splits)
  show ?thesis
    using run st by (simp add: emit_def is_ec2_call_def exit_status_def)
qed

theorem skip_leaves_cloud_untouched_witness:
  "main default_config (mock_world thirty_days) argv0 instance_state =
     (Inr (), instance_state\<lparr>trace := [Connect ''mydomain.tld'' 443]\<rparr>)
   \<and> filter is_ec2_call
        (trace (snd (main default_config (mock_world thirty_days) argv0 instance_state))) = []
   \<and> groups (snd (main default_config (mock_world thirty_days) argv0 instance_state)) =
        groups instance_state"
proof -
  have h1: "ssl_expiration (mock_world thirty_days) ''mydomain.tld'' instance_state =
      (Inr (1700000000 + thirty_days, thirty_days * 1000000, thirty_days),
       instance_state\<lparr>trace := [Connect ''mydomain.tld'' 443]\<rparr>)"
    by (simp add: eval_defs thirty_days_def int_of_seconds_thirty_days)
  have h2: "threshold default_config \<le> thirty_days"
    by (simp add: eval_defs thirty_days_def)
  show ?thesis
    using skip_leaves_cloud_untouched [OF h1 h2, of "''letsrenew.py''" "[]"]
    by (simp add: argv0_def instance_state_def is_ec2_call_def)
qed

text \<open>
  C4, as the code behaves. When the TLS connection raises, the script prints the exception
  and stops at once: one connection attempt, no further call, the security groups untouched.
  It stops through \<open>sys.exit()\<close> without an argument, so the exit status is 0, where
  \<open>request\<close> stops through \<open>sys.exit(e)\<close> with status 1. (When lines 137-142 raise
  already, no connection is attempted and their exception ends the script.)
\<close>

theorem connect_failure_exits_zero:
  assumes "tls_connect w s hostname 443 = Some e" and "is_Exception e"
  shows "(case tls_socket w s hostname of
            None \<Rightarrow>
              main cfg w (prog # hostname # rest) s =
                (Inl (SystemExit ExitNone),
                 emit (Print (py_str e)) (emit (Connect hostname 443) s))
              \<and> exit_status (fst (main cfg w (prog # hostname # rest) s)) = 0
          | Some e' \<Rightarrow> main cfg w (prog # hostname # rest) s = (Inl e', s))
     \<and> groups (snd (main cfg w (prog # hostname # rest) s)) = groups s"
  using assms
  by (simp add: main_def ssl_expiration_def pbind_def lift_def py_index_def try_except_def
      call_def print_def raise_def exit_status_def emit_def split: option.splits)

theorem connect_failure_exits_zero_witness:
  "tls_socket unreachable_world instance_state ''mydomain.tld'' = None
   \<and> main default_config unreachable_world argv0 instance_state =
     (Inl (SystemExit ExitNone),
      instance_state\<lparr>trace := [Connect ''mydomain.tld'' 443, Print ''timed out'']\<rparr>)
   \<and> exit_status (fst (main default_config unreachable_world argv0 instance_state)) = 0"
proof -
  have h0: "tls_socket unreachable_world instance_state ''mydomain.tld'' = None"
    by (simp add: unreachable_world_def mock_world_def)
  have h1: "tls_connect unreachable_world instance_state ''mydomain.tld'' 443 =
      Some (Raised OSError ''timed out'')"
    by (simp add: unreachable_world_def)
  have h2: "is_Exception (Raised OSError ''timed out'')"
    by (simp add: is_Exception_def)
  show ?thesis
    using connect_failure_exits_zero [OF h1 h2, of default_config "''letsrenew.py''" "[]"] h0
    by (simp add: argv0_def instance_state_def emit_def py_str_def exit_status_def)
qed

text \<open>
  C5, amended. Adding and removing the rule are one API call each, with no handler around
  it: the function returns exactly when the call returns and otherwise raises what the call
  raised. An exception of the authorize call ends the script before the renewal tool is
  invoked, with exit status 1.
\<close>

theorem rule_calls_propagate:
  "(authorize_ingress w s ec2 sg (temp_rule cfg) = Inl e \<longrightarrow>
      add_rule_to_security_group cfg w ec2 sg s =
        (Inl e, emit (AuthorizeIngress ec2 sg (temp_rule cfg)) s))
   \<and> (revoke_ingress w s ec2 sg (temp_rule cfg) = Inl e \<longrightarrow>
      remove_rule_from_security_group cfg w ec2 sg s =
        (Inl e, emit (RevokeIngress ec2 sg (temp_rule cfg)) s))
   \<and> (fst (add_rule_to_security_group cfg w ec2 sg s) = Inr () \<longleftrightarrow>
        (\<exists>gs. authorize_ingress w s ec2 sg (temp_rule cfg) = Inr gs))
   \<and> (fst (remove_rule_from_security_group cfg w ec2 sg s) = Inr () \<longleftrightarrow>
        (\<exists>gs. revoke_ingress w s ec2 sg (temp_rule cfg) = Inr gs))
   \<and> (prepare_exposure cfg w s0 = (Inr (ec2, sg), s)
        \<and> authorize_ingress w s ec2 sg (temp_rule cfg) = Inl e \<and> is_Exception e \<longrightarrow>
      execute_renewal cfg w s0 = (Inl e, emit (AuthorizeIngress ec2 sg (temp_rule cfg)) s)
      \<and> exit_status (fst (execute_renewal cfg w s0)) = 1)"
proof -
  have run: "execute_renewal cfg w s0 =
      (Inl e, emit (AuthorizeIngress ec2 sg (temp_rule cfg)) s)"
    if "prepare_exposure cfg w s0 = (Inr (ec2, sg), s)"
      and "authorize_ingress w s ec2 sg (temp_rule cfg) = Inl e"
    using that
    by (simp add: execute_renewal_prepared renewal_window_def pbind_apply add_rule_apply)
  have status: "exit_status (Inl e) = 1" if "is_Exception e"
    using that by (cases e) (simp_all add: exit_status_def is_Exception_def)
  show ?thesis
    using run status
    by (auto simp: add_rule_apply remove_rule_apply split: sum.splits)
qed

theorem rule_calls_propagate_witness:
  "add_rule_to_security_group default_config (mock_world three_days) 4 ''sg-1''
     (prepared_state\<lparr>groups := open_groups\<rparr>) =
     (Inl (Raised ClientError ''InvalidPermission.Duplicate''),
      emit (AuthorizeIngress 4 ''sg-1'' (temp_rule default_config))
        (prepared_state\<lparr>groups := open_groups\<rparr>))
   \<and> fst (add_rule_to_security_group default_config (mock_world three_days) 4 ''sg-1''
        prepared_state) = Inr ()"
proof -
  let ?w = "mock_world three_days"
  have h1: "authorize_ingress ?w (prepared_state\<lparr>groups := open_groups\<rparr>) 4 ''sg-1''
      (temp_rule default_config) = Inl (Raised ClientError ''InvalidPermission.Duplicate'')"
    by (simp add: eval_defs)
  have h2: "authorize_ingress ?w prepared_state 4 ''sg-1'' (temp_rule default_config) =
      Inr open_groups"
    by (simp add: eval_defs)
  have "add_rule_to_security_group default_config ?w 4 ''sg-1''
      (prepared_state\<lparr>groups := open_groups\<rparr>) =
      (Inl (Raised ClientError ''InvalidPermission.Duplicate''),
       emit (AuthorizeIngress 4 ''sg-1'' (temp_rule default_config))
         (prepared_state\<lparr>groups := open_groups\<rparr>))"
    using rule_calls_propagate
      [of ?w "prepared_state\<lparr>groups := open_groups\<rparr>" 4 "''sg-1''" default_config
          "Raised ClientError ''InvalidPermission.Duplicate''"] h1
    by blast
  moreover have "fst (add_rule_to_security_group default_config ?w 4 ''sg-1''
      prepared_state) = Inr ()"
    using rule_calls_propagate
      [of ?w prepared_state 4 "''sg-1''" default_config] h2
    by blast
  ultimately show ?thesis by simp
qed

text \<open>
  The claim as stated fails against a store that refuses duplicates: with the rule left in
  the group by an earlier run, the authorize call raises, the script ends on it with exit
  status 1 and the renewal tool is never started; and removing a rule the group does not
  have raises as well.
\<close>

theorem stale_rule_is_fatal:
  "fst (main default_config (mock_world three_days) argv0 stale_state) =
     Inl (Raised ClientError ''InvalidPermission.Duplicate'')
   \<and> exit_status (fst (main default_config (mock_world three_days) argv0 stale_state)) = 1
   \<and> last (trace (snd (main default_config (mock_world three_days) argv0 stale_state))) =
       AuthorizeIngress 5 ''sg-1'' (temp_rule default_config)
   \<and> fst (remove_rule_from_security_group default_config (mock_world three_days) 4 ''sg-1''
        prepared_state) = Inl (Raised ClientError ''InvalidPermission.NotFound'')"
  by (simp add: eval_defs stale_state_def)

text \<open>
  C6, amended. When the revoke call raises, nothing retries it and nothing reports it apart
  from the interpreter: the exception ends the script right after that one request, with
  exit status 1, the post command is not run, and the security groups stay as they were
  during the renewal.
\<close>

theorem failed_removal_is_not_retried:
  assumes "prepare_exposure cfg w s = (Inr (ec2, sg), s1)"
    and "authorize_ingress w s1 ec2 sg (temp_rule cfg) = Inr gs"
    and "s2 = (emit (AuthorizeIngress ec2 sg (temp_rule cfg)) s1)\<lparr>groups := gs\<rparr>"
    and "os_popen w s2 (certbot_cmd (domain cfg)) = Inr res"
    and "s3 = emit (Popen (certbot_cmd (domain cfg))) s2"
    and "revoke_ingress w s3 ec2 sg (temp_rule cfg) = Inl e"
    and "is_Exception e"
  shows "execute_renewal cfg w s = (Inl e, emit (RevokeIngress ec2 sg (temp_rule cfg)) s3)
     \<and> filter is_revoke (trace (snd (execute_renewal cfg w s))) =
         filter is_revoke (trace s) @ [RevokeIngress ec2 sg (temp_rule cfg)]
     \<and> groups (snd (execute_renewal cfg w s)) = gs
     \<and> exit_status (fst (execute_renewal cfg w s)) = 1"
proof -
  have frame: "filter is_revoke (trace s1) = filter is_revoke (trace s)"
    using prepare_exposure_frame [OF assms(1)] by simp
  have status: "exit_status (Inl e) = 1"
    using assms(7) by (cases e) (simp_all add: exit_status_def is_Exception_def)
  have run: "execute_renewal cfg w s =
      (Inl e, emit (RevokeIngress ec2 sg (temp_rule cfg)) s3)"
    using assms(2-6)
    by (simp add: execute_renewal_prepared [OF assms(1)] renewal_window_def pbind_apply
        add_rule_apply run_cmd_apply remove_rule_apply)
  show ?thesis
    using frame status assms(3,5)
    by (simp add: run emit_def is_revoke_def)
qed

theorem failed_removal_is_not_retried_witness:
  "execute_renewal default_config revoke_fails_world instance_state =
     (Inl (Raised ClientError ''RequestLimitExceeded''),
      emit (RevokeIngress 4 ''sg-1'' (temp_rule default_config))
        (emit (Popen (certbot_cmd (domain default_config)))
           ((emit (AuthorizeIngress 4 ''sg-1'' (temp_rule default_config)) prepared_state)
              \<lparr>groups := open_groups\<rparr>)))
   \<and> exit_status (fst (execute_renewal default_config revoke_fails_world instance_state)) = 1"
proof -
  let ?w = revoke_fails_world
  let ?s2 = "(emit (AuthorizeIngress 4 ''sg-1'' (temp_rule default_config)) prepared_state)
               \<lparr>groups := open_groups\<rparr>"
  let ?s3 = "emit (Popen (certbot_cmd (domain default_config))) ?s2"
  have h1: "prepare_exposure default_config ?w instance_state =
      (Inr (4, ''sg-1''), prepared_state)"
    by (simp add: eval_defs revoke_fails_world_def)
  have h2: "authorize_ingress ?w prepared_state 4 ''sg-1'' (temp_rule default_config) =
      Inr open_groups"
    by (simp add: eval_defs revoke_fails_world_def)
  have h4: "os_popen ?w ?s2 (certbot_cmd (domain default_config)) =
      Inr \<lparr> stdout_text = ''done'' @ [CHR 0x0A], exit_code = 0 \<rparr>"
    by (simp add: revoke_fails_world_def mock_world_def)
  have h6: "revoke_ingress ?w ?s3 4 ''sg-1'' (temp_rule default_config) =
      Inl (Raised ClientError ''RequestLimitExceeded'')"
    by (simp add: revoke_fails_world_def)
  have h7: "is_Exception (Raised ClientError ''RequestLimitExceeded'')"
    by (simp add: is_Exception_def)
  show ?thesis
    using failed_removal_is_not_retried [OF h1 h2 refl h4 refl h6 h7] by blast
qed

text \<open>
  The claim as stated fails where the API refuses the revoke: the run holds one revoke
  request, not two, it is the last thing the script does, and the rule is still there.
\<close>

theorem refused_revoke_sent_once:
  "length (filter is_revoke
     (trace (snd (main default_config revoke_fails_world argv0 instance_state)))) = 1
   \<and> last (trace (snd (main default_config revoke_fails_world argv0 instance_state))) =
       RevokeIngress 5 ''sg-1'' (temp_rule default_config)
   \<and> fst (main default_config revoke_fails_world argv0 instance_state) =
       Inl (Raised ClientError ''RequestLimitExceeded'')
   \<and> groups (snd (main default_config revoke_fails_world argv0 instance_state)) = open_groups"
  by (simp add: eval_defs revoke_fails_world_def)

text \<open>
  C7, amended. Lines 192-206 send no authorize and no revoke request, and if they raise the
  script ends there with none of the three steps made. Once they have returned, the steps
  are made in the order add-rule, renewal tool, remove-rule, on the same handle, group and
  rule, and the run is cut short at the first step that raises: a refused authorize
  request is the last call of the run, a renewal tool that cannot be started is the last
  call after the authorize request, and only a renewal tool that returns is followed by
  the revoke request and then by the post hook. So the tool is never started before the
  rule was added and the rule is never removed before the tool was started, but only a
  run in which add-rule and the tool return makes all three. The renewal tool is the
  command of lines 212-215 for the configured domain.
\<close>

theorem renewal_sequence_order:
  "certbot_cmd (domain cfg) =
     [CHR 0x0A] @ ''            certbot -d '' @ domain cfg @ '' --standalone certonly''
     @ [CHR 0x0A] @ ''            #certbot-auto -d '' @ domain cfg @ '' --standalone certonly''
     @ [CHR 0x0A] @ ''        ''
   \<and> filter is_mutation (trace (snd (prepare_exposure cfg w s))) = filter is_mutation (trace s)
   \<and> (case prepare_exposure cfg w s of
        (Inl e, s1) \<Rightarrow> execute_renewal cfg w s = (Inl e, s1)
      | (Inr (ec2, sg), s1) \<Rightarrow>
          (case authorize_ingress w s1 ec2 sg (temp_rule cfg) of
             Inl e \<Rightarrow>
               execute_renewal cfg w s =
                 (Inl e, emit (AuthorizeIngress ec2 sg (temp_rule cfg)) s1)
           | Inr gs \<Rightarrow>
              (let s2 = (emit (AuthorizeIngress ec2 sg (temp_rule cfg)) s1)\<lparr>groups := gs\<rparr>
               in case os_popen w s2 (certbot_cmd (domain cfg)) of
                    Inl e \<Rightarrow>
                      execute_renewal cfg w s =
                        (Inl e, emit (Popen (certbot_cmd (domain cfg))) s2)
                  | Inr res \<Rightarrow>
                      (\<exists>evs out.
                         trace (snd (execute_renewal cfg w s)) =
                           trace s1 @
                           [AuthorizeIngress ec2 sg (temp_rule cfg),
                            Popen (certbot_cmd (domain cfg)),
                            RevokeIngress ec2 sg (temp_rule cfg)] @ evs
                         \<and> prefix evs
                             [Print ''Running post-command'', Popen (pre_command cfg),
                              Print out]
                         \<and> (fst (execute_renewal cfg w s) = Inr () \<longrightarrow> length evs = 3)))))"
proof -
  have cmd: "certbot_cmd (domain cfg) =
     [CHR 0x0A] @ ''            certbot -d '' @ domain cfg @ '' --standalone certonly''
     @ [CHR 0x0A] @ ''            #certbot-auto -d '' @ domain cfg @ '' --standalone certonly''
     @ [CHR 0x0A] @ ''        ''"
    by (simp add: certbot_cmd_def)
  obtain r s1 where run: "prepare_exposure cfg w s = (r, s1)"
    by (cases "prepare_exposure cfg w s")
  have frame: "filter is_mutation (trace (snd (prepare_exposure cfg w s))) =
      filter is_mutation (trace s)"
    using prepare_exposure_frame [OF run] run by simp
  have steps: "case prepare_exposure cfg w s of
        (Inl e, s1) \<Rightarrow> execute_renewal cfg w s = (Inl e, s1)
      | (Inr (ec2, sg), s1) \<Rightarrow>
          (case authorize_ingress w s1 ec2 sg (temp_rule cfg) of
             Inl e \<Rightarrow>
               execute_renewal cfg w s =
                 (Inl e, emit (AuthorizeIngress ec2 sg (temp_rule cfg)) s1)
           | Inr gs \<Rightarrow>
              (let s2 = (emit (AuthorizeIngress ec2 sg (temp_rule cfg)) s1)\<lparr>groups := gs\<rparr>
               in case os_popen w s2 (certbot_cmd (domain cfg)) of
                    Inl e \<Rightarrow>
                      execute_renewal cfg w s =
                        (Inl e, emit (Popen (certbot_cmd (domain cfg))) s2)
                  | Inr res \<Rightarrow>
                      (\<exists>evs out.
                         trace (snd (execute_renewal cfg w s)) =
                           trace s1 @
                           [AuthorizeIngress ec2 sg (temp_rule cfg),
                            Popen (certbot_cmd (domain cfg)),
                            RevokeIngress ec2 sg (temp_rule cfg)] @ evs
                         \<and> prefix evs
                             [Print ''Running post-command'', Popen (pre_command cfg),
                              Print out]
                         \<and> (fst (execute_renewal cfg w s) = Inr () \<longrightarrow> length evs = 3))))"
  proof (cases r)
    case (Inl e)
    then show ?thesis
      using run by (simp add: execute_renewal_unprepared)
  next
    case (Inr p)
    obtain ec2 sg where p: "p = (ec2, sg)" by (cases p)
    have prep: "prepare_exposure cfg w s = (Inr (ec2, sg), s1)"
      using run Inr p by simp
    show ?thesis
      by (auto simp: prep execute_renewal_prepared [OF prep] renewal_window_def pbind_apply
          add_rule_apply run_cmd_apply remove_rule_apply post_hook_apply emit_def Let_def
          split: sum.splits)
  qed
  show ?thesis
    using cmd frame steps by blast
qed

theorem renewal_sequence_order_witness:
  "prepare_exposure default_config (mock_world three_days) instance_state =
     (Inr (4, ''sg-1''), prepared_state)
   \<and> execute_renewal default_config (mock_world three_days) instance_state =
     (Inr (),
      \<lparr> trace = trace prepared_state @
          [AuthorizeIngress 4 ''sg-1'' (temp_rule default_config),
           Popen ([CHR 0x0A] @ ''            certbot -d mydomain.tld --standalone certonly''
                  @ [CHR 0x0A]
                  @ ''            #certbot-auto -d mydomain.tld --standalone certonly''
                  @ [CHR 0x0A] @ ''        ''),
           RevokeIngress 4 ''sg-1'' (temp_rule default_config),
           Print ''Running post-command'',
           Popen (pre_command default_config),
           Print ''done''],
        groups = groups instance_state \<rparr>)"
proof -
  have h1: "prepare_exposure default_config (mock_world three_days) instance_state =
      (Inr (4, ''sg-1''), prepared_state)"
    by (simp add: eval_defs)
  have h2: "execute_renewal default_config (mock_world three_days) instance_state =
     (Inr (),
      \<lparr> trace = trace prepared_state @
          [AuthorizeIngress 4 ''sg-1'' (temp_rule default_config),
           Popen ([CHR 0x0A] @ ''            certbot -d mydomain.tld --standalone certonly''
                  @ [CHR 0x0A]
                  @ ''            #certbot-auto -d mydomain.tld --standalone certonly''
                  @ [CHR 0x0A] @ ''        ''),
           RevokeIngress 4 ''sg-1'' (temp_rule default_config),
           Print ''Running post-command'',
           Popen (pre_command default_config),
           Print ''done''],
        groups = groups instance_state \<rparr>)"
    by (simp add: eval_defs)
  show ?thesis
    using renewal_sequence_order [of default_config "mock_world three_days" instance_state]
      h1 h2
    by blast
qed

text \<open>
  The claim as stated fails on a run that decides to renew and then cannot reach the
  metadata service: \<open>request\<close> ends the script with exit status 1 after the pre command,
  and the run has made none of add-rule, renewal tool and remove-rule.
\<close>

theorem renew_run_without_window:
  "Decide three_days (threshold default_config) = Renew
   \<and> main default_config metadata_down_world argv0 instance_state =
       (Inl (SystemExit (ExitObj ''Connection refused'')),
        instance_state
          \<lparr>trace := [Connect ''mydomain.tld'' 443, Print ''Running pre-command'',
                     Popen (pre_command default_config), Print ''done'',
                     RequestsGet identity_url]\<rparr>)
   \<and> exit_status (fst (main default_config metadata_down_world argv0 instance_state)) = 1
   \<and> filter is_mutation
        (trace (snd (main default_config metadata_down_world argv0 instance_state))) = []"
  by (simp add: eval_defs metadata_down_world_def Decide_def is_mutation_def)

text \<open>
  C8, amended. When the script has got through the removal of the rule, all that is left
  is: print \<open>Running post-command\<close>, run one command, print what it wrote. The exit status
  of that command is not read, no more than that of the renewal tool: the script ends
  normally whenever the command could be started, and a world in which the commands exit
  with other statuses gives the same run.
\<close>

theorem post_hook_status_unread:
  "(through_removal cfg w s = (Inr (), s4) \<longrightarrow>
      (\<exists>cmd. execute_renewal cfg w s = post_hook w cmd s4))
   \<and> post_hook w cmd s4 =
       (case os_popen w (emit (Print ''Running post-command'') s4) cmd of
          Inl e \<Rightarrow> (Inl e, emit (Popen cmd) (emit (Print ''Running post-command'') s4))
        | Inr res \<Rightarrow>
            (Inr (), emit (Print (rstrip (stdout_text res)))
                       (emit (Popen cmd) (emit (Print ''Running post-command'') s4))))
   \<and> main cfg (with_exit_codes f w) argv = main cfg w argv"
proof -
  have "through_removal cfg w s = (Inr (), s4) \<longrightarrow>
      execute_renewal cfg w s = post_hook w (pre_command cfg) s4"
    by (simp add: execute_renewal_after_removal pbind_apply)
  then show ?thesis
    using post_hook_apply [of w cmd s4] main_exit_codes [of cfg f w argv] by blast
qed

theorem post_hook_status_unread_witness:
  "fst (through_removal default_config (mock_world three_days) instance_state) = Inr ()
   \<and> (\<exists>cmd. execute_renewal default_config (mock_world three_days) instance_state =
         post_hook (mock_world three_days) cmd
           (snd (through_removal default_config (mock_world three_days) instance_state)))
   \<and> main default_config failing_commands_world argv0 =
       main default_config (mock_world three_days) argv0"
proof -
  let ?w = "mock_world three_days"
  have h1: "fst (through_removal default_config ?w instance_state) = Inr ()"
    by (simp add: eval_defs through_removal_def)
  then have h2: "through_removal default_config ?w instance_state =
      (Inr (), snd (through_removal default_config ?w instance_state))"
    by (simp add: prod_eq_iff)
  show ?thesis
    unfolding failing_commands_world_def
    using post_hook_status_unread
      [of default_config ?w instance_state
          "snd (through_removal default_config ?w instance_state)" "[]"
          "\<lambda>s cmd n. 1" argv0] h1 h2
    by blast
qed

text \<open>
  The claim as stated fails on the committed configuration: a hook that exits with status
  1 leaves the run, what it prints and its exit status 0 exactly as a hook that succeeds,
  so its failure is not surfaced; and the command run after the removal is not the
  configured post command.
\<close>

theorem hook_failure_not_surfaced:
  "main default_config failing_commands_world argv0 instance_state =
     main default_config (mock_world three_days) argv0 instance_state
   \<and> exit_status (fst (main default_config failing_commands_world argv0 instance_state)) = 0
   \<and> drop 12 (trace (snd (main default_config (mock_world three_days) argv0 instance_state))) =
       [Print ''Running post-command'', Popen (pre_command default_config), Print ''done'']
   \<and> pre_command default_config \<noteq> post_command default_config"
  by (simp add: eval_defs failing_commands_world_def with_exit_codes_def)

text \<open>
  C9. \<open>get_security_group_by_name\<close> does not depend on the handle it is given: it builds a
  client of its own and sends the describe request through that one. It returns the
  \<open>GroupId\<close> of the first group of the response, and on an empty response the index \<open>[0]\<close>
  raises \<open>IndexError\<close>.
\<close>

theorem get_security_group_by_name_partial:
  "get_security_group_by_name w ec2 name s = get_security_group_by_name w ec2' name s
   \<and> (boto3_client w s ''ec2'' = Inr c
        \<and> describe_security_groups w (emit (Boto3Client ''ec2'') s) c name = Inr (g # gs)
      \<longrightarrow> get_security_group_by_name w ec2 name s =
            (Inr (GroupId g),
             emit (DescribeSecurityGroups c name) (emit (Boto3Client ''ec2'') s)))
   \<and> (boto3_client w s ''ec2'' = Inr c
        \<and> describe_security_groups w (emit (Boto3Client ''ec2'') s) c name = Inr []
      \<longrightarrow> get_security_group_by_name w ec2 name s =
            (Inl (Raised IndexError ''list index out of range''),
             emit (DescribeSecurityGroups c name) (emit (Boto3Client ''ec2'') s)))"
  by (simp add: get_security_group_by_name_apply)

theorem get_security_group_by_name_partial_witness:
  "get_security_group_by_name (mock_world three_days) 99 ''web'' instance_state =
     (Inr ''sg-1'',
      instance_state\<lparr>trace := [Boto3Client ''ec2'', DescribeSecurityGroups 0 ''web'']\<rparr>)
   \<and> get_security_group_by_name (mock_world three_days) 99 ''db'' instance_state =
     (Inl (Raised IndexError ''list index out of range''),
      instance_state\<lparr>trace := [Boto3Client ''ec2'', DescribeSecurityGroups 0 ''db'']\<rparr>)
   \<and> get_security_group_by_name (mock_world three_days) 99 ''web'' instance_state =
     get_security_group_by_name (mock_world three_days) 0 ''web'' instance_state"
proof -
  let ?w = "mock_world three_days"
  let ?g = "\<lparr> GroupId = ''sg-1'', GroupName = ''web'', IpPermissions = [] \<rparr>"
  have client: "boto3_client ?w instance_state ''ec2'' = Inr 0"
    by (simp add: mock_world_def instance_state_def)
  have web: "describe_security_groups ?w (emit (Boto3Client ''ec2'') instance_state) 0 ''web'' =
      Inr [?g]"
    by (simp add: mock_world_def instance_state_def emit_def)
  have db: "describe_security_groups ?w (emit (Boto3Client ''ec2'') instance_state) 0 ''db'' =
      Inr []"
    by (simp add: mock_world_def instance_state_def emit_def)
  have "get_security_group_by_name ?w 99 ''web'' instance_state =
      (Inr (GroupId ?g),
       emit (DescribeSecurityGroups 0 ''web'') (emit (Boto3Client ''ec2'') instance_state))"
    using get_security_group_by_name_partial
      [of ?w 99 "''web''" instance_state 0 0 ?g "[]"] client web
    by blast
  moreover have "get_security_group_by_name ?w 99 ''db'' instance_state =
      (Inl (Raised IndexError ''list index out of range''),
       emit (DescribeSecurityGroups 0 ''db'') (emit (Boto3Client ''ec2'') instance_state))"
    using get_security_group_by_name_partial
      [of ?w 99 "''db''" instance_state 0 0 ?g "[]"] client db
    by blast
  moreover have "get_security_group_by_name ?w 99 ''web'' instance_state =
      get_security_group_by_name ?w 0 ''web'' instance_state"
    using get_security_group_by_name_partial
      [of ?w 99 "''web''" instance_state 0 0 ?g "[]"]
    by blast
  ultimately show ?thesis
    by (simp add: emit_def instance_state_def)
qed

end
